theory Spec2Isabelle
  imports Main "HOL-Library.Word"
begin

unbundle bit_operations_syntax

section \<open>JavaScript strings and numbers\<close>

text \<open>
  Strings are modelled as ASCII text (\<^typ>\<open>string\<close>), one \<^typ>\<open>char\<close> per code unit; a
  JavaScript number that holds an integer is an \<^typ>\<open>int\<close>.  The double quote is
  \<open>CHR 0x22\<close> and the line feed is \<open>CHR 0x0A\<close>.
\<close>

definition is_space :: "char \<Rightarrow> bool" where
  \<comment> \<open>the ASCII members of the regular expression class \<open>\s\<close> and of StrWhiteSpaceChar\<close>
  "is_space c = (c = CHR 0x09 \<or> c = CHR 0x0A \<or> c = CHR 0x0B \<or> c = CHR 0x0C
                 \<or> c = CHR 0x0D \<or> c = CHR 0x20)"

fun strip_prefix :: "string \<Rightarrow> string \<Rightarrow> string option" where
  "strip_prefix [] s = Some s"
| "strip_prefix (p # ps) [] = None"
| "strip_prefix (p # ps) (c # cs) = (if p = c then strip_prefix ps cs else None)"

definition startsWith :: "string \<Rightarrow> string \<Rightarrow> bool" where
  "startsWith s p = (strip_prefix p s \<noteq> None)"

fun includes_str :: "string \<Rightarrow> string \<Rightarrow> bool" where
  \<comment> \<open>\<open>s.includes(sub)\<close>\<close>
  "includes_str [] sub = (sub = [])"
| "includes_str (c # cs) sub = (startsWith (c # cs) sub \<or> includes_str cs sub)"

fun split_on :: "char \<Rightarrow> string \<Rightarrow> string list" where
  \<comment> \<open>\<open>s.split(d)\<close> for a one-character separator: never the empty list\<close>
  "split_on d [] = [[]]"
| "split_on d (c # cs) =
     (if c = d then [] # split_on d cs
      else (case split_on d cs of [] \<Rightarrow> [[c]] | p # ps \<Rightarrow> (c # p) # ps))"

fun js_join :: "string \<Rightarrow> string list \<Rightarrow> string" where
  \<comment> \<open>\<open>xs.join(sep)\<close>\<close>
  "js_join sep [] = []"
| "js_join sep [x] = x"
| "js_join sep (x # y # ys) = x @ sep @ js_join sep (y # ys)"

definition in_range :: "char \<Rightarrow> char \<Rightarrow> char \<Rightarrow> bool" where
  \<comment> \<open>the character class \<open>[lo-hi]\<close>\<close>
  "in_range lo hi c = ((of_char lo :: nat) \<le> of_char c \<and> (of_char c :: nat) \<le> of_char hi)"

definition toLowerCase :: "string \<Rightarrow> string" where
  "toLowerCase s =
     map (\<lambda>c. if in_range (CHR ''A'') (CHR ''Z'') c then char_of (of_char c + (32::nat)) else c) s"

definition trim :: "string \<Rightarrow> string" where
  "trim s = rev (dropWhile is_space (rev (dropWhile is_space s)))"

definition digit_val :: "char \<Rightarrow> nat option" where
  "digit_val c =
     (if in_range (CHR ''0'') (CHR ''9'') c then Some (of_char c - 48)
      else if in_range (CHR ''a'') (CHR ''z'') c then Some (of_char c - 87)
      else if in_range (CHR ''A'') (CHR ''Z'') c then Some (of_char c - 55)
      else None)"

definition is_digit_in :: "nat \<Rightarrow> char \<Rightarrow> bool" where
  "is_digit_in R c = (case digit_val c of None \<Rightarrow> False | Some v \<Rightarrow> v < R)"

definition digits_value :: "nat \<Rightarrow> string \<Rightarrow> nat" where
  "digits_value R ds =
     foldl (\<lambda>acc c. case digit_val c of None \<Rightarrow> acc | Some v \<Rightarrow> acc * R + v) 0 ds"

fun show_digits :: "nat \<Rightarrow> nat \<Rightarrow> string" where
  \<comment> \<open>the decimal digits of a number below \<open>10 ^ k\<close>, least significant last\<close>
  "show_digits 0 n = []"
| "show_digits (Suc k) n =
     (if n < 10 then [''0123456789'' ! n]
      else show_digits k (n div 10) @ [''0123456789'' ! (n mod 10)])"

definition show_nat :: "nat \<Rightarrow> string" where
  "show_nat n = show_digits (Suc n) n"

definition show_int :: "int \<Rightarrow> string" where
  \<comment> \<open>\<open>String(n)\<close> for an integer\<close>
  "show_int i = (if i < 0 then CHR ''-'' # show_nat (nat (- i)) else show_nat (nat i))"

definition has_radix_prefix :: "char \<Rightarrow> string \<Rightarrow> bool" where
  \<comment> \<open>\<open>0x\<close>/\<open>0X\<close> (and \<open>0b\<close>, \<open>0o\<close>) in front\<close>
  "has_radix_prefix l s =
     (case s of a # b # _ \<Rightarrow> a = CHR ''0'' \<and> toLowerCase [b] = [l] | _ \<Rightarrow> False)"

definition parseInt :: "string \<Rightarrow> int option" where
  \<comment> \<open>\<open>parseInt(s)\<close> with no radix; \<open>None\<close> is NaN\<close>
  "parseInt s =
     (let t = dropWhile is_space s;
          neg = startsWith t ''-'';
          u = (if startsWith t ''-'' \<or> startsWith t ''+'' then drop 1 t else t);
          hex = has_radix_prefix (CHR ''x'') u;
          R = (if hex then 16 else 10);
          ds = takeWhile (is_digit_in R) (if hex then drop 2 u else u)
      in if ds = [] then None
         else Some ((if neg then - 1 else 1) * int (digits_value R ds)))"

datatype jsnum = NaN | Infinity bool | Dec int int
  \<comment> \<open>\<open>Infinity neg\<close>; \<open>Dec m e\<close> is the number \<open>m * 10 ^ e\<close>, kept exact\<close>

definition exponent_part :: "string \<Rightarrow> int option" where
  \<comment> \<open>the ExponentPart of a decimal literal, or nothing at all\<close>
  "exponent_part r =
     (if r = [] then Some 0
      else if \<not> startsWith (toLowerCase r) ''e'' then None
      else let r1 = drop 1 r;
               neg = startsWith r1 ''-'';
               ds = (if startsWith r1 ''-'' \<or> startsWith r1 ''+'' then drop 1 r1 else r1)
           in if ds = [] \<or> \<not> list_all (is_digit_in 10) ds then None
              else Some ((if neg then - 1 else 1) * int (digits_value 10 ds)))"

definition radix_literal :: "nat \<Rightarrow> string \<Rightarrow> jsnum" where
  "radix_literal R ds =
     (if ds = [] \<or> \<not> list_all (is_digit_in R) ds then NaN else Dec (int (digits_value R ds)) 0)"

definition toNumber :: "string \<Rightarrow> jsnum" where
  \<comment> \<open>StringToNumber, the conversion \<open><\<close> and \<open>>=\<close> apply to a string operand\<close>
  "toNumber s =
     (let t = trim s in
      if t = [] then Dec 0 0
      else if has_radix_prefix (CHR ''x'') t then radix_literal 16 (drop 2 t)
      else if has_radix_prefix (CHR ''o'') t then radix_literal 8 (drop 2 t)
      else if has_radix_prefix (CHR ''b'') t then radix_literal 2 (drop 2 t)
      else
        let neg = startsWith t ''-'';
            u = (if startsWith t ''-'' \<or> startsWith t ''+'' then drop 1 t else t)
        in if u = ''Infinity'' then Infinity neg
           else
             let ip = takeWhile (is_digit_in 10) u;
                 r1 = dropWhile (is_digit_in 10) u;
                 dot = startsWith r1 ''.'';
                 fp = (if dot then takeWhile (is_digit_in 10) (drop 1 r1) else []);
                 r2 = (if dot then dropWhile (is_digit_in 10) (drop 1 r1) else r1)
             in if ip = [] \<and> fp = [] then NaN
                else (case exponent_part r2 of
                        None \<Rightarrow> NaN
                      | Some e \<Rightarrow>
                          Dec ((if neg then - 1 else 1) * int (digits_value 10 (ip @ fp)))
                              (e - int (length fp))))"

datatype jsval = Num int | Str string
  \<comment> \<open>the value of a \<open>version\<close> field: a number or a string\<close>

definition num_lt :: "jsnum \<Rightarrow> int \<Rightarrow> bool" where
  "num_lt x k =
     (case x of NaN \<Rightarrow> False | Infinity neg \<Rightarrow> neg
      | Dec m e \<Rightarrow> if 0 \<le> e then m * 10 ^ nat e < k else m < k * 10 ^ nat (- e))"

definition num_ge :: "jsnum \<Rightarrow> int \<Rightarrow> bool" where
  "num_ge x k =
     (case x of NaN \<Rightarrow> False | Infinity neg \<Rightarrow> \<not> neg
      | Dec m e \<Rightarrow> if 0 \<le> e then k \<le> m * 10 ^ nat e else k * 10 ^ nat (- e) \<le> m)"

fun js_lt :: "jsval \<Rightarrow> int \<Rightarrow> bool" where
  \<comment> \<open>\<open>v < k\<close>\<close>
  "js_lt (Num n) k = (n < k)"
| "js_lt (Str s) k = num_lt (toNumber s) k"

fun js_ge :: "jsval \<Rightarrow> int \<Rightarrow> bool" where
  \<comment> \<open>\<open>v >= k\<close>\<close>
  "js_ge (Num n) k = (k \<le> n)"
| "js_ge (Str s) k = num_ge (toNumber s) k"

fun to_string :: "jsval \<Rightarrow> string" where
  \<comment> \<open>\<open>String(v)\<close>, as a template literal does it\<close>
  "to_string (Num n) = show_int n"
| "to_string (Str s) = s"

definition parseInt_or0 :: "jsval \<Rightarrow> int" where
  \<comment> \<open>\<open>parseInt(v) || 0\<close>\<close>
  "parseInt_or0 v = (case parseInt (to_string v) of None \<Rightarrow> 0 | Some n \<Rightarrow> n)"

section \<open>Runtime discovery: parsing the version banner\<close>

record javaInfo =
  java_path :: string
  java_version :: jsval
  java_vendor :: string
  java_bitness :: string
  java_type :: string
  java_isValid :: bool

record banner_scan =
  scan_version :: string
  scan_vendor :: string
  scan_bitness :: string
  scan_type :: string

fun regex_search :: "(string \<Rightarrow> 'a option) \<Rightarrow> string \<Rightarrow> 'a option" where
  \<comment> \<open>the leftmost position at which a pattern matches\<close>
  "regex_search m [] = m []"
| "regex_search m (c # cs) =
     (case m (c # cs) of Some r \<Rightarrow> Some r | None \<Rightarrow> regex_search m cs)"

definition match_version_here :: "string \<Rightarrow> string option" where
  \<comment> \<open>\<open>/version\s+"([^"]+)"/\<close> anchored here; the result is group 1\<close>
  "match_version_here s =
     (case strip_prefix ''version'' s of
        None \<Rightarrow> None
      | Some r \<Rightarrow>
          if takeWhile is_space r = [] then None
          else (case dropWhile is_space r of
                  [] \<Rightarrow> None
                | q # r2 \<Rightarrow>
                    if q \<noteq> CHR 0x22 then None
                    else let body = takeWhile (\<lambda>c. c \<noteq> CHR 0x22) r2
                         in if body = [] \<or> dropWhile (\<lambda>c. c \<noteq> CHR 0x22) r2 = [] then None
                            else Some body))"

definition match_build_here :: "string \<Rightarrow> string option" where
  \<comment> \<open>\<open>/\(build\s+([^)]+)\)/\<close> anchored here; \<open>\s+\<close> gives back its last blank
      when nothing else is left for group 1\<close>
  "match_build_here s =
     (case strip_prefix ''(build'' s of
        None \<Rightarrow> None
      | Some r \<Rightarrow>
          let seg = takeWhile (\<lambda>c. c \<noteq> CHR '')'') r;
              ws = takeWhile is_space seg
          in if dropWhile (\<lambda>c. c \<noteq> CHR '')'') r = [] \<or> ws = [] then None
             else if length ws < length seg then Some (drop (length ws) seg)
             else if 2 \<le> length seg then Some [last seg]
             else None)"

definition version_match :: "string \<Rightarrow> string option" where
  "version_match line =
     (case regex_search match_version_here line of
        Some v \<Rightarrow> Some v
      | None \<Rightarrow> regex_search match_build_here line)"

definition normalize_version :: "string \<Rightarrow> string" where
  \<comment> \<open>\<open>1.8.x\<close> becomes \<open>8\<close>, \<open>11.x.x\<close> becomes \<open>11\<close>\<close>
  "normalize_version v =
     (if includes_str v ''.'' then
        (case split_on (CHR ''.'') v of
           p0 # p1 # _ \<Rightarrow> if p0 = ''1'' then p1 else p0
         | _ \<Rightarrow> v)
      else v)"

definition scan_line :: "banner_scan \<Rightarrow> string \<Rightarrow> banner_scan" where
  \<comment> \<open>one round of the loop over the banner's lines\<close>
  "scan_line sc line =
     (let lowerLine = toLowerCase line;
          sc1 = (case version_match line of
                   None \<Rightarrow> sc
                 | Some v \<Rightarrow> sc\<lparr>scan_version := normalize_version v\<rparr>);
          sc2 = (if includes_str lowerLine ''openjdk''
                   then sc1\<lparr>scan_vendor := ''OpenJDK'', scan_type := ''JDK''\<rparr>
                 else if includes_str lowerLine ''java(tm)'' \<or> includes_str lowerLine ''oracle''
                   then sc1\<lparr>scan_vendor := ''Oracle''\<rparr>
                 else if includes_str lowerLine ''adoptopenjdk'' \<or> includes_str lowerLine ''adoptium''
                   then sc1\<lparr>scan_vendor := ''Adoptium''\<rparr>
                 else if includes_str lowerLine ''microsoft''
                   then sc1\<lparr>scan_vendor := ''Microsoft''\<rparr>
                 else if includes_str lowerLine ''zulu''
                   then sc1\<lparr>scan_vendor := ''Zulu''\<rparr>
                 else if includes_str lowerLine ''amazon''
                   then sc1\<lparr>scan_vendor := ''Amazon Corretto''\<rparr>
                 else sc1);
          sc3 = (if includes_str lowerLine ''64-bit'' then sc2\<lparr>scan_bitness := ''64-bit''\<rparr>
                 else if includes_str lowerLine ''32-bit'' then sc2\<lparr>scan_bitness := ''32-bit''\<rparr>
                 else sc2)
      in if includes_str lowerLine ''jdk'' then sc3\<lparr>scan_type := ''JDK''\<rparr>
         else if includes_str lowerLine ''jre'' then sc3\<lparr>scan_type := ''JRE''\<rparr>
         else sc3)"

definition version_value :: "string \<Rightarrow> jsval" where
  \<comment> \<open>\<open>parseInt(version) || version\<close>: NaN and 0 are falsy\<close>
  "version_value v =
     (case parseInt v of
        None \<Rightarrow> Str v
      | Some n \<Rightarrow> if n = 0 then Str v else Num n)"

definition parseJavaVersion :: "string \<Rightarrow> string \<Rightarrow> javaInfo option" where
  "parseJavaVersion output javaPath =
     (let sc = foldl scan_line
                 \<lparr>scan_version = '''', scan_vendor = '''', scan_bitness = ''64-bit'',
                  scan_type = ''JRE''\<rparr>
                 (split_on (CHR 0x0A) output)
      in if scan_version sc = [] then None
         else Some \<lparr>java_path = javaPath, java_version = version_value (scan_version sc),
                    java_vendor = scan_vendor sc, java_bitness = scan_bitness sc,
                    java_type = scan_type sc, java_isValid = True\<rparr>)"


section \<open>The launcher: environment, state and effects\<close>

datatype platform = Win32 | Darwin | Linux
  \<comment> \<open>\<open>os.platform()\<close>: \<open>'win32'\<close>, \<open>'darwin'\<close>, anything else\<close>

record config =
  cfg_javaPath :: "string option"
  cfg_memory :: int
  cfg_gameDirectory :: string

text \<open>
  An account's \<open>username\<close> is a string; a missing one is not told apart from the empty
  one (\<open>validateAccount\<close> refuses both).  Optional string fields are \<open>None\<close> when
  \<open>undefined\<close>.  A manifest is the object \<open>JSON.parse\<close> returns for a version file, a
  library entry with its optional \<open>downloads.artifact\<close>.
\<close>

record account =
  acc_username :: string
  acc_uuid :: "string option"
  acc_type :: "string option"
  acc_accessToken :: "string option"

record artifact =
  art_path :: string

record downloads =
  dl_artifact :: "artifact option"

record library =
  lib_downloads :: "downloads option"

record versionInfo =
  vi_id :: string
  vi_assets :: "string option"
  vi_libraries :: "library list option"

record version_ref =
  ref_id :: string

record launchConfig =
  lc_account :: "account option"
  lc_version :: version_ref
  lc_javaPath :: "string option"
  lc_memory :: "int option"
  lc_jvmArgs :: "string list option"
  lc_gameArgs :: "string list option"

text \<open>
  What the launcher reads from outside: the platform, the outcome of \<open>exec(command)\<close>
  (\<open>None\<close> for an error, else stdout and stderr), the paths that \<open>getCommonJavaPaths()\<close>
  returns after expanding its patterns, the configuration, the parsed manifest stored at a
  path (\<open>None\<close> when \<open>fs.access\<close>, \<open>fs.readFile\<close> or \<open>JSON.parse\<close> fails), Node's
  \<open>path.join\<close> and \<open>path.delimiter\<close>, the pid the next spawned child gets, and whether
  \<open>kill\<close> raises.
\<close>

record env =
  env_platform :: platform
  env_exec :: "string \<Rightarrow> (string \<times> string) option"
  env_commonJavaPaths :: "string list"
  env_config :: config
  env_readJson :: "string \<Rightarrow> versionInfo option"
  env_pathJoin :: "string list \<Rightarrow> string"
  env_pathDelimiter :: string
  env_spawnPid :: "nat option"
  env_killThrows :: bool

datatype channel = Stdout | Stderr

record output_record =
  out_type :: channel
  out_data :: string
  out_timestamp :: int

record child =
  child_pid :: "nat option"

text \<open>
  The errors the launcher throws, one constructor for each \<open>new Error(...)\<close> of the source
  (whose message texts are not ASCII) in the order they occur: the game is already
  running (\<open>launchGame\<close>); no Java runtime found, invalid Java path, Java version too low
  (\<open>validateJava\<close>); game version not installed (\<open>validateVersion\<close>); account
  incomplete, Microsoft account without access token (\<open>validateAccount\<close>).  \<open>TypeError\<close>
  is what reading a property of \<open>undefined\<close> throws.
\<close>

datatype error =
    GameAlreadyRunning
  | JavaNotFound
  | JavaPathInvalid string
  | JavaVersionTooLow jsval
  | VersionNotInstalled string
  | AccountIncomplete
  | MicrosoftTokenRequired
  | TypeError

datatype diagnostic =
    OutOfMemory | MainClassMissing | AuthenticationFailed | DownloadFailed | InvalidAccessToken
  \<comment> \<open>the five \<open>message\<close> texts of \<open>errorPatterns\<close>, in the order of the table\<close>

datatype event =
    JavaVersionsDetected "javaInfo list"
  | GameLaunched "nat option" string string jsval
  | GameLaunchFailed error string string
  | GameOutput channel string
  | GameErrorDetected string diagnostic
  | GameExit "int option" bool "output_record list"
  | GameError string
  | GameStopped "nat option"

datatype effect =
    Emit event
  | Spawn string "string list" "string option"
  | Mkdir string
  | Kill "nat option" string

record launcher =
  gameProcess :: "child option"
  isRunning :: bool
  gameOutput :: "output_record list"
  javaVersions :: "javaInfo list"
  javaCache :: "(string \<times> javaInfo) list"
  currentVersionInfo :: "versionInfo option"
  effects :: "effect list"

definition emit :: "event \<Rightarrow> launcher \<Rightarrow> launcher" where
  "emit e st = st\<lparr>effects := effects st @ [Emit e]\<rparr>"

definition perform :: "effect \<Rightarrow> launcher \<Rightarrow> launcher" where
  "perform x st = st\<lparr>effects := effects st @ [x]\<rparr>"

definition truthy :: "string option \<Rightarrow> bool" where
  \<comment> \<open>a string that is neither \<open>undefined\<close> nor empty\<close>
  "truthy s = (case s of None \<Rightarrow> False | Some t \<Rightarrow> t \<noteq> [])"

definition js_or :: "string option \<Rightarrow> string option \<Rightarrow> string option" where
  \<comment> \<open>\<open>a || b\<close>\<close>
  "js_or a b = (if truthy a then a else b)"

definition or_default :: "string option \<Rightarrow> string \<Rightarrow> string" where
  \<comment> \<open>\<open>a || 'literal'\<close>\<close>
  "or_default a d = (case a of None \<Rightarrow> d | Some t \<Rightarrow> if t = [] then d else t)"

section \<open>Runtime discovery: probing\<close>

definition execCommand :: "env \<Rightarrow> string \<Rightarrow> string option" where
  \<comment> \<open>resolves with \<open>stdout || stderr\<close>, rejects (\<open>None\<close>) on an error\<close>
  "execCommand e command =
     (case env_exec e command of
        None \<Rightarrow> None
      | Some (out, err) \<Rightarrow> Some (if out \<noteq> [] then out else err))"

definition checkJavaVersion :: "env \<Rightarrow> launcher \<Rightarrow> string \<Rightarrow> launcher \<times> javaInfo option" where
  "checkJavaVersion e st javaPath =
     (case map_of (javaCache st) javaPath of
        Some cached \<Rightarrow> (st, Some cached)
      | None \<Rightarrow>
          (case execCommand e ([CHR 0x22] @ javaPath @ [CHR 0x22] @ '' -version'') of
             None \<Rightarrow> (st, None)
           | Some versionOutput \<Rightarrow>
               (case parseJavaVersion versionOutput javaPath of
                  None \<Rightarrow> (st, None)
                | Some versionInfo \<Rightarrow>
                    (st\<lparr>javaCache := javaCache st @ [(javaPath, versionInfo)]\<rparr>,
                     Some versionInfo))))"










definition getRecommendedJavaVersion :: "launcher \<Rightarrow> javaInfo option" where
  "getRecommendedJavaVersion st =
     (case find (\<lambda>j. java_version j = Num 8) (javaVersions st) of
        Some java8 \<Rightarrow> Some java8
      | None \<Rightarrow>
          (case find (\<lambda>j. java_version j = Num 11) (javaVersions st) of
             Some java11 \<Rightarrow> Some java11
           | None \<Rightarrow> (case javaVersions st of [] \<Rightarrow> None | j # _ \<Rightarrow> Some j)))"

section \<open>Validation\<close>

definition validateJava :: "env \<Rightarrow> launcher \<Rightarrow> string option \<Rightarrow> launcher \<times> (error + javaInfo)" where
  \<comment> \<open>\<open>Inl\<close> is a thrown error\<close>
  "validateJava e st javaPath =
     (if \<not> truthy javaPath then
        (case getRecommendedJavaVersion st of
           Some recommended \<Rightarrow> (st, Inr recommended)
         | None \<Rightarrow> (st, Inl JavaNotFound))
      else
        (case checkJavaVersion e st (or_default javaPath []) of
           (st1, None) \<Rightarrow> (st1, Inl (JavaPathInvalid (or_default javaPath [])))
         | (st1, Some info) \<Rightarrow>
             if js_lt (java_version info) 8
             then (st1, Inl (JavaVersionTooLow (java_version info)))
             else (st1, Inr info)))"

definition validateVersion :: "env \<Rightarrow> version_ref \<Rightarrow> error + versionInfo" where
  "validateVersion e version =
     (let gameDir = cfg_gameDirectory (env_config e);
          versionDir = env_pathJoin e [gameDir, ''versions'', ref_id version];
          versionJson = env_pathJoin e [versionDir, ref_id version @ ''.json'']
      in case env_readJson e versionJson of
           None \<Rightarrow> Inl (VersionNotInstalled (ref_id version))
         | Some manifest \<Rightarrow> Inr manifest)"

definition validateAccount :: "account option \<Rightarrow> error option" where
  \<comment> \<open>the error it throws, if any\<close>
  "validateAccount acct =
     (case acct of
        None \<Rightarrow> Some AccountIncomplete
      | Some a \<Rightarrow>
          if acc_username a = [] then Some AccountIncomplete
          else if acc_type a = Some ''microsoft'' \<and> \<not> truthy (acc_accessToken a)
            then Some MicrosoftTokenRequired
          else None)"

record compatibility =
  compatible :: bool
  has_message :: bool
  has_warning :: bool

definition checkJavaCompatibility :: "jsval \<Rightarrow> compatibility" where
  \<comment> \<open>the returned object: \<open>compatible\<close>, and whether it carries \<open>message\<close> and \<open>warning\<close>\<close>
  "checkJavaCompatibility version =
     (let javaVersion = parseInt_or0 version
      in if javaVersion < 8
           then \<lparr>compatible = False, has_message = True, has_warning = False\<rparr>
         else if javaVersion > 21
           then \<lparr>compatible = True, has_message = True, has_warning = True\<rparr>
         else \<lparr>compatible = True, has_message = False, has_warning = False\<rparr>)"

section \<open>Offline identity: MD5 and the UUID layout\<close>

text \<open>
  \<open>crypto.createHash('md5').update(s).digest('hex')\<close>, after RFC 1321: bytes are numbers
  below 256, the state is four 32-bit words.
\<close>

definition md5_K :: "32 word list" where
  "md5_K =
    [0xd76aa478, 0xe8c7b756, 0x242070db, 0xc1bdceee,
     0xf57c0faf, 0x4787c62a, 0xa8304613, 0xfd469501,
     0x698098d8, 0x8b44f7af, 0xffff5bb1, 0x895cd7be,
     0x6b901122, 0xfd987193, 0xa679438e, 0x49b40821,
     0xf61e2562, 0xc040b340, 0x265e5a51, 0xe9b6c7aa,
     0xd62f105d, 0x02441453, 0xd8a1e681, 0xe7d3fbc8,
     0x21e1cde6, 0xc33707d6, 0xf4d50d87, 0x455a14ed,
     0xa9e3e905, 0xfcefa3f8, 0x676f02d9, 0x8d2a4c8a,
     0xfffa3942, 0x8771f681, 0x6d9d6122, 0xfde5380c,
     0xa4beea44, 0x4bdecfa9, 0xf6bb4b60, 0xbebfbc70,
     0x289b7ec6, 0xeaa127fa, 0xd4ef3085, 0x04881d05,
     0xd9d4d039, 0xe6db99e5, 0x1fa27cf8, 0xc4ac5665,
     0xf4292244, 0x432aff97, 0xab9423a7, 0xfc93a039,
     0x655b59c3, 0x8f0ccc92, 0xffeff47d, 0x85845dd1,
     0x6fa87e4f, 0xfe2ce6e0, 0xa3014314, 0x4e0811a1,
     0xf7537e82, 0xbd3af235, 0x2ad7d2bb, 0xeb86d391]"

definition md5_S :: "nat list" where
  "md5_S =
    [7, 12, 17, 22, 7, 12, 17, 22, 7, 12, 17, 22, 7, 12, 17, 22,
     5, 9, 14, 20, 5, 9, 14, 20, 5, 9, 14, 20, 5, 9, 14, 20,
     4, 11, 16, 23, 4, 11, 16, 23, 4, 11, 16, 23, 4, 11, 16, 23,
     6, 10, 15, 21, 6, 10, 15, 21, 6, 10, 15, 21, 6, 10, 15, 21]"

definition le_bytes :: "nat \<Rightarrow> nat \<Rightarrow> nat list" where
  \<comment> \<open>the \<open>k\<close> low bytes of a number, least significant first\<close>
  "le_bytes k n = map (\<lambda>i. (n div 256 ^ i) mod 256) [0..<k]"

definition md5_pad :: "nat list \<Rightarrow> nat list" where
  "md5_pad m =
     m @ [128] @ replicate ((119 - length m mod 64) mod 64) 0 @ le_bytes 8 (8 * length m)"

fun le_value :: "nat list \<Rightarrow> nat" where
  \<comment> \<open>the number whose bytes these are, least significant first\<close>
  "le_value [] = 0"
| "le_value (b # bs) = b + 256 * le_value bs"

definition le_word :: "nat list \<Rightarrow> 32 word" where
  "le_word bs = word_of_nat (le_value bs)"

definition md5_words :: "nat list \<Rightarrow> 32 word list" where
  "md5_words blk = map (\<lambda>i. le_word (take 4 (drop (4 * i) blk))) [0..<16]"

type_synonym md5_state = "32 word \<times> 32 word \<times> 32 word \<times> 32 word"

definition rotate_left :: "nat \<Rightarrow> 32 word \<Rightarrow> 32 word" where
  \<comment> \<open>\<open>(x << n) | (x >> (32 - n))\<close>\<close>
  "rotate_left n x = push_bit n x OR drop_bit (32 - n) x"

definition md5_step :: "32 word list \<Rightarrow> md5_state \<Rightarrow> nat \<Rightarrow> md5_state" where
  "md5_step M st i =
     (case st of (A, B, C, D) \<Rightarrow>
        let F = (if i < 16 then (B AND C) OR (NOT B AND D)
                 else if i < 32 then (D AND B) OR (NOT D AND C)
                 else if i < 48 then B XOR C XOR D
                 else C XOR (B OR NOT D));
            g = (if i < 16 then i
                 else if i < 32 then (5 * i + 1) mod 16
                 else if i < 48 then (3 * i + 5) mod 16
                 else (7 * i) mod 16)
        in (D, B + rotate_left (md5_S ! i) (F + A + md5_K ! i + M ! g), B, C))"

definition md5_block :: "md5_state \<Rightarrow> nat list \<Rightarrow> md5_state" where
  "md5_block st blk =
     (case st of (a0, b0, c0, d0) \<Rightarrow>
        (case foldl (md5_step (md5_words blk)) st [0..<64] of
           (A, B, C, D) \<Rightarrow> (a0 + A, b0 + B, c0 + C, d0 + D)))"

definition md5_digest :: "nat list \<Rightarrow> md5_state" where
  "md5_digest m =
     (let p = md5_pad m
      in foldl md5_block (0x67452301, 0xefcdab89, 0x98badcfe, 0x10325476)
           (map (\<lambda>i. take 64 (drop (64 * i) p)) [0..<length p div 64]))"

definition hex_digit :: "nat \<Rightarrow> char" where
  "hex_digit n = ''0123456789abcdef'' ! n"

definition hex_byte :: "nat \<Rightarrow> string" where
  "hex_byte b = [hex_digit (b div 16 mod 16), hex_digit (b mod 16)]"

definition md5_hex :: "string \<Rightarrow> string" where
  "md5_hex s =
     (case md5_digest (map of_char s) of
        (a, b, c, d) \<Rightarrow>
          concat (map hex_byte (concat (map (\<lambda>w. le_bytes 4 (unat w)) [a, b, c, d]))))"

definition line_terminator :: "char \<Rightarrow> bool" where
  \<comment> \<open>what the regular expression \<open>.\<close> does not match\<close>
  "line_terminator c = (c = CHR 0x0A \<or> c = CHR 0x0D)"

definition dashed :: "string \<Rightarrow> string" where
  \<comment> \<open>\<open>'$1-$2-$3-$4-$5'\<close> for the groups of \<open>(.{8})(.{4})(.{4})(.{4})(.{12})\<close>\<close>
  "dashed m =
     take 8 m @ ''-'' @ take 4 (drop 8 m) @ ''-'' @ take 4 (drop 12 m) @ ''-''
       @ take 4 (drop 16 m) @ ''-'' @ take 12 (drop 20 m)"

fun uuid_replace :: "string \<Rightarrow> string" where
  \<comment> \<open>\<open>s.replace(/(.{8})(.{4})(.{4})(.{4})(.{12})/, '$1-$2-$3-$4-$5')\<close>: the leftmost
      run of 32 characters without a line terminator, once\<close>
  "uuid_replace [] = []"
| "uuid_replace (c # cs) =
     (if 32 \<le> length (c # cs) \<and> list_all (\<lambda>x. \<not> line_terminator x) (take 32 (c # cs))
      then dashed (take 32 (c # cs)) @ drop 32 (c # cs)
      else c # uuid_replace cs)"

definition generateOfflineUUID :: "string \<Rightarrow> string" where
  "generateOfflineUUID username = uuid_replace (md5_hex (''OfflinePlayer:'' @ username))"

section \<open>Argument assembly\<close>

definition memory_or :: "int option \<Rightarrow> int \<Rightarrow> int" where
  \<comment> \<open>\<open>memory || config.memory\<close>\<close>
  "memory_or m d = (case m of None \<Rightarrow> d | Some n \<Rightarrow> if n = 0 then d else n)"

definition prepareLaunchArguments ::
  "env \<Rightarrow> account \<Rightarrow> versionInfo \<Rightarrow> int \<Rightarrow> javaInfo \<Rightarrow> string list \<times> string list" where
  "prepareLaunchArguments e acct versionInfo memory javaInfo =
     (let gameDir = cfg_gameDirectory (env_config e);
          assetsDir = env_pathJoin e [gameDir, ''assets''];
          jvmArguments =
            [''-Xmx'' @ show_int memory @ ''M'',
             ''-Xms'' @ show_int (memory div 2) @ ''M'',
             ''-XX:+UnlockExperimentalVMOptions'',
             ''-XX:+UseG1GC'',
             ''-XX:G1NewSizePercent=20'',
             ''-XX:G1ReservePercent=20'',
             ''-XX:MaxGCPauseMillis=50'',
             ''-XX:G1HeapRegionSize=32M'',
             ''-Djava.library.path=${natives_directory}'',
             ''-Dminecraft.launcher.brand=hcl'',
             ''-Dminecraft.launcher.version=1.0.0'',
             ''-cp'', ''${classpath}'']
            @ (if js_ge (java_version javaInfo) 9
               then [''--add-opens=java.base/java.util.jar=ALL-UNNAMED'',
                     ''--add-opens=java.base/java.lang=ALL-UNNAMED'',
                     ''--add-opens=java.base/java.io=ALL-UNNAMED'']
               else []);
          gameArguments =
            [''net.minecraft.client.main.Main'',
             ''--username'', acc_username acct,
             ''--version'', vi_id versionInfo,
             ''--gameDir'', gameDir,
             ''--assetsDir'', assetsDir,
             ''--assetIndex'', or_default (vi_assets versionInfo) ''legacy'',
             ''--uuid'', or_default (acc_uuid acct) (generateOfflineUUID (acc_username acct)),
             ''--accessToken'', or_default (acc_accessToken acct) ''0'',
             ''--userType'', (if acc_type acct = Some ''microsoft'' then ''mojang'' else ''legacy''),
             ''--versionType'', ''release'']
            @ (if acc_type acct = Some ''offline'' then [''--demo''] else [])
      in (jvmArguments, gameArguments))"

definition optimizeJVMArgs :: "jsval \<Rightarrow> int \<Rightarrow> string \<Rightarrow> string list" where
  "optimizeJVMArgs javaVersion memory osType =
     [''-Xmx'' @ show_int memory @ ''M'', ''-Xms'' @ show_int (memory div 4) @ ''M'']
     @ (if js_ge javaVersion 9
        then [''-XX:+UseG1GC'', ''-XX:G1NewSizePercent=20'', ''-XX:G1ReservePercent=20'',
              ''-XX:MaxGCPauseMillis=50'', ''-XX:G1HeapRegionSize=32M'']
        else [''-XX:+UseConcMarkSweepGC'', ''-XX:+CMSIncrementalMode'',
              ''-XX:-UseAdaptiveSizePolicy''])
     @ [''-XX:+UnlockExperimentalVMOptions'', ''-XX:+DisableExplicitGC'']
     @ (if osType = ''darwin'' then [''-XstartOnFirstThread''] else [])"

definition generateJVMArgs :: "int \<Rightarrow> string \<Rightarrow> account \<Rightarrow> string list" where
  \<comment> \<open>\<open>HCLGameManager.generateJVMArgs\<close>\<close>
  "generateJVMArgs memory gameDir acct =
     [''-Xmx'' @ show_int memory @ ''M'',
      ''-Xms'' @ show_int (memory div 4) @ ''M'',
      ''-Djava.library.path=${natives_directory}'',
      ''-Dminecraft.launcher.brand=hcl'',
      ''-Dminecraft.launcher.version=1.0.0'',
      ''-cp'', ''${classpath}'']
     @ (if acc_type acct \<noteq> Some ''offline''
        then [''-Dminecraft.api.auth.host=https://authserver.mojang.com'',
              ''-Dminecraft.api.account.host=https://api.mojang.com'',
              ''-Dminecraft.api.session.host=https://sessionserver.mojang.com'']
        else [])"

fun classpath_loop :: "env \<Rightarrow> library list \<Rightarrow> string list \<Rightarrow> string list" where
  \<comment> \<open>the \<open>for\<close> loop over \<open>versionInfo.libraries\<close>, pushing onto \<open>libraries\<close>\<close>
  "classpath_loop e [] libraries = libraries"
| "classpath_loop e (lib # libs) libraries =
     classpath_loop e libs
       (case lib_downloads lib of
          None \<Rightarrow> libraries
        | Some d \<Rightarrow>
            (case dl_artifact d of
               None \<Rightarrow> libraries
             | Some a \<Rightarrow>
                 libraries
                 @ [env_pathJoin e [cfg_gameDirectory (env_config e), ''libraries'', art_path a]]))"

definition generateClasspath :: "env \<Rightarrow> versionInfo \<Rightarrow> string" where
  "generateClasspath e versionInfo =
     (let gameDir = cfg_gameDirectory (env_config e);
          libraries = (case vi_libraries versionInfo of
                         None \<Rightarrow> []
                       | Some libs \<Rightarrow> classpath_loop e libs []);
          clientJar = env_pathJoin e
                        [gameDir, ''versions'', vi_id versionInfo, vi_id versionInfo @ ''.jar'']
      in js_join (env_pathDelimiter e) (libraries @ [clientJar]))"

definition generateNativesPath :: "env \<Rightarrow> launcher \<Rightarrow> versionInfo \<Rightarrow> launcher \<times> string" where
  "generateNativesPath e st versionInfo =
     (let nativesDir = env_pathJoin e
                         [cfg_gameDirectory (env_config e), ''versions'', vi_id versionInfo,
                          ''natives'']
      in (perform (Mkdir nativesDir) st, nativesDir))"

section \<open>Spawning and supervising the game process\<close>

fun expand_replacement :: "string \<Rightarrow> string \<Rightarrow> string \<Rightarrow> string \<Rightarrow> string" where
  \<comment> \<open>the replacement text of \<open>String.prototype.replace\<close> for a pattern without groups:
      \<open>$$\<close>, \<open>$&\<close>, \<open>$`\<close> and \<open>$'\<close> are special\<close>
  "expand_replacement pre matched post [] = []"
| "expand_replacement pre matched post [c] = [c]"
| "expand_replacement pre matched post (c # d # r) =
     (if c = CHR ''$'' \<and> d = CHR ''$'' then CHR ''$'' # expand_replacement pre matched post r
      else if c = CHR ''$'' \<and> d = CHR ''&'' then matched @ expand_replacement pre matched post r
      else if c = CHR ''$'' \<and> d = CHR 0x60 then pre @ expand_replacement pre matched post r
      else if c = CHR ''$'' \<and> d = CHR 0x27 then post @ expand_replacement pre matched post r
      else c # expand_replacement pre matched post (d # r))"

fun replace_from :: "string \<Rightarrow> string \<Rightarrow> string \<Rightarrow> nat \<Rightarrow> string \<Rightarrow> string" where
  \<comment> \<open>\<open>pre\<close> is the text already passed, \<open>skip\<close> what is left of the last match\<close>
  "replace_from needle repl pre skip [] = []"
| "replace_from needle repl pre skip (c # cs) =
     (if 0 < skip then replace_from needle repl (pre @ [c]) (skip - 1) cs
      else (case strip_prefix needle (c # cs) of
              Some post \<Rightarrow>
                expand_replacement pre needle post repl
                @ replace_from needle repl (pre @ [c]) (length needle - 1) cs
            | None \<Rightarrow> c # replace_from needle repl (pre @ [c]) 0 cs))"

definition replace_all :: "string \<Rightarrow> string \<Rightarrow> string \<Rightarrow> string" where
  \<comment> \<open>\<open>s.replace(/needle/g, repl)\<close> for a literal, non-empty needle\<close>
  "replace_all needle repl s = replace_from needle repl [] 0 s"

fun process_args :: "env \<Rightarrow> versionInfo \<Rightarrow> launcher \<Rightarrow> string list \<Rightarrow> launcher \<times> string list" where
  \<comment> \<open>\<open>jvmArgs.map(arg => ...)\<close>: both paths are computed anew for every argument\<close>
  "process_args e vi st [] = (st, [])"
| "process_args e vi st (arg # args) =
     (case generateNativesPath e st vi of
        (st1, nativesDir) \<Rightarrow>
          (case process_args e vi st1 args of
             (st2, rest) \<Rightarrow>
               (st2,
                replace_all ''${classpath}'' (generateClasspath e vi)
                  (replace_all ''${natives_directory}'' nativesDir arg) # rest)))"

definition spawnGameProcess ::
  "env \<Rightarrow> launcher \<Rightarrow> string \<Rightarrow> string list \<Rightarrow> string list \<Rightarrow> launcher \<times> (error + child)" where
  \<comment> \<open>\<open>this.currentVersionInfo\<close> is read, and reading \<open>.id\<close> of \<open>undefined\<close> throws\<close>
  "spawnGameProcess e st javaPath jvmArgs gameArgs =
     (if jvmArgs \<noteq> [] \<and> currentVersionInfo st = None then (st, Inl TypeError)
      else
        (case (case currentVersionInfo st of
                 None \<Rightarrow> (st, [])
               | Some vi \<Rightarrow> process_args e vi st jvmArgs) of
           (st1, processedJvmArgs) \<Rightarrow>
             (perform (Spawn javaPath (processedJvmArgs @ gameArgs)
                         (Some (cfg_gameDirectory (env_config e)))) st1,
              Inr \<lparr>child_pid = env_spawnPid e\<rparr>)))"

record launch_result =
  res_success :: bool
  res_pid :: "nat option"
  res_javaVersion :: jsval

definition launch_failed ::
  "launchConfig \<Rightarrow> launcher \<Rightarrow> error \<Rightarrow> launcher \<times> (error + launch_result)" where
  \<comment> \<open>the \<open>catch\<close> block: it reads \<open>account.username\<close> before it emits\<close>
  "launch_failed lc st err =
     (case lc_account lc of
        None \<Rightarrow> (st, Inl TypeError)
      | Some a \<Rightarrow>
          (emit (GameLaunchFailed err (acc_username a) (ref_id (lc_version lc))) st, Inl err))"

definition launchGame ::
  "env \<Rightarrow> launcher \<Rightarrow> launchConfig \<Rightarrow> launcher \<times> (error + launch_result)" where
  "launchGame e st lc =
     (if isRunning st then (st, Inl GameAlreadyRunning)
      else
        (case validateJava e st (js_or (lc_javaPath lc) (cfg_javaPath (env_config e))) of
           (st1, Inl err) \<Rightarrow> launch_failed lc st1 err
         | (st1, Inr javaInfo) \<Rightarrow>
             (case validateVersion e (lc_version lc) of
                Inl err \<Rightarrow> launch_failed lc st1 err
              | Inr versionInfo \<Rightarrow>
                  (case validateAccount (lc_account lc) of
                     Some err \<Rightarrow> launch_failed lc st1 err
                   | None \<Rightarrow>
                       (case lc_account lc of
                          None \<Rightarrow> launch_failed lc st1 AccountIncomplete
                        | Some acct \<Rightarrow>
                            (case prepareLaunchArguments e acct versionInfo
                                    (memory_or (lc_memory lc) (cfg_memory (env_config e)))
                                    javaInfo of
                               (jvmArguments, gameArguments) \<Rightarrow>
                                 (case spawnGameProcess e st1 (java_path javaInfo)
                                         (jvmArguments @ (case lc_jvmArgs lc of None \<Rightarrow> [] | Some xs \<Rightarrow> xs))
                                         (gameArguments @ (case lc_gameArgs lc of None \<Rightarrow> [] | Some xs \<Rightarrow> xs)) of
                                    (st2, Inl err) \<Rightarrow> launch_failed lc st2 err
                                  | (st2, Inr proc) \<Rightarrow>
                                      (emit (GameLaunched (child_pid proc) (acc_username acct)
                                               (vi_id versionInfo) (java_version javaInfo))
                                         (st2\<lparr>gameProcess := Some proc, isRunning := True,
                                               gameOutput := []\<rparr>),
                                       Inr \<lparr>res_success = True, res_pid = child_pid proc,
                                            res_javaVersion = java_version javaInfo\<rparr>))))))))"

section \<open>Output classification\<close>

datatype atom = Lit char | AnyChar
  \<comment> \<open>a literal character, or the regular expression's \<open>.\<close>\<close>

fun match_atoms :: "atom list \<Rightarrow> string \<Rightarrow> bool" where
  "match_atoms [] s = True"
| "match_atoms (a # as) [] = False"
| "match_atoms (Lit x # as) (c # cs) = (x = c \<and> match_atoms as cs)"
| "match_atoms (AnyChar # as) (c # cs) = (\<not> line_terminator c \<and> match_atoms as cs)"

fun regex_test :: "atom list \<Rightarrow> string \<Rightarrow> bool" where
  \<comment> \<open>\<open>pattern.test(s)\<close>: a match at some position\<close>
  "regex_test p [] = match_atoms p []"
| "regex_test p (c # cs) = (match_atoms p (c # cs) \<or> regex_test p cs)"

definition errorPatterns :: "(atom list \<times> diagnostic) list" where
  "errorPatterns =
     [(map Lit ''java'' @ [AnyChar] @ map Lit ''lang'' @ [AnyChar] @ map Lit ''OutOfMemoryError'',
       OutOfMemory),
      (map Lit ''Could not find or load main class'', MainClassMissing),
      (map Lit ''Authentication failed'', AuthenticationFailed),
      (map Lit ''Failed to download'', DownloadFailed),
      (map Lit ''Invalid access token'', InvalidAccessToken)]"

fun first_error :: "(atom list \<times> diagnostic) list \<Rightarrow> string \<Rightarrow> event list" where
  \<comment> \<open>the loop over the table, left at the first pattern that matches\<close>
  "first_error [] output = []"
| "first_error ((pattern, message) # rest) output =
     (if regex_test pattern output then [GameErrorDetected output message]
      else first_error rest output)"

definition checkForErrors :: "launcher \<Rightarrow> string \<Rightarrow> launcher" where
  "checkForErrors st output =
     st\<lparr>effects := effects st @ map Emit (first_error errorPatterns output)\<rparr>"

definition stdout_data :: "launcher \<Rightarrow> string \<Rightarrow> int \<Rightarrow> launcher" where
  \<comment> \<open>the \<open>data\<close> listener of the child's stdout; \<open>now\<close> is \<open>Date.now()\<close>\<close>
  "stdout_data st output now =
     emit (GameOutput Stdout output)
       (st\<lparr>gameOutput := gameOutput st
              @ [\<lparr>out_type = Stdout, out_data = output, out_timestamp = now\<rparr>]\<rparr>)"

definition stderr_data :: "launcher \<Rightarrow> string \<Rightarrow> int \<Rightarrow> launcher" where
  \<comment> \<open>the \<open>data\<close> listener of the child's stderr\<close>
  "stderr_data st output now =
     checkForErrors
       (emit (GameOutput Stderr output)
          (st\<lparr>gameOutput := gameOutput st
                 @ [\<lparr>out_type = Stderr, out_data = output, out_timestamp = now\<rparr>]\<rparr>))
       output"

definition process_close :: "launcher \<Rightarrow> int option \<Rightarrow> launcher" where
  \<comment> \<open>the \<open>close\<close> listener\<close>
  "process_close st code =
     (emit (GameExit code (code = Some 0) (gameOutput st)) (st\<lparr>isRunning := False\<rparr>))
       \<lparr>gameProcess := None\<rparr>"

definition process_error :: "launcher \<Rightarrow> string \<Rightarrow> launcher" where
  \<comment> \<open>the \<open>error\<close> listener\<close>
  "process_error st msg =
     (emit (GameError msg) (st\<lparr>isRunning := False\<rparr>))\<lparr>gameProcess := None\<rparr>"

section \<open>Stopping, and reading the output buffer\<close>

definition stopGame :: "env \<Rightarrow> launcher \<Rightarrow> launcher \<times> bool" where
  "stopGame e st =
     (case gameProcess st of
        None \<Rightarrow> (st, False)
      | Some proc \<Rightarrow>
          if \<not> isRunning st then (st, False)
          else if env_platform e = Win32 then
            (case child_pid proc of
               None \<Rightarrow> (st, False)
             | Some pid \<Rightarrow>
                 (emit (GameStopped (child_pid proc))
                    ((perform (Spawn ''taskkill'' [''/pid'', show_nat pid, ''/f'', ''/t''] None) st)
                       \<lparr>isRunning := False\<rparr>),
                  True))
          else if env_killThrows e then (st, False)
          else
            (emit (GameStopped (child_pid proc))
               ((perform (Kill (child_pid proc) ''SIGTERM'') st)\<lparr>isRunning := False\<rparr>),
             True))"

definition slice_from :: "'a list \<Rightarrow> int \<Rightarrow> 'a list" where
  \<comment> \<open>\<open>xs.slice(start)\<close>: a negative start counts from the end\<close>
  "slice_from xs start =
     (if start < 0 then drop (nat (max (int (length xs) + start) 0)) xs
      else drop (nat (min start (int (length xs)))) xs)"

definition getGameOutput :: "launcher \<Rightarrow> int option \<Rightarrow> output_record list" where
  \<comment> \<open>\<open>limit\<close> defaults to 100\<close>
  "getGameOutput st limit =
     slice_from (gameOutput st) (- (case limit of None \<Rightarrow> 100 | Some n \<Rightarrow> n))"

section \<open>Properties to be checked, in the specification's words\<close>

definition is_hex_digit :: "char \<Rightarrow> bool" where
  \<comment> \<open>a lower-case hexadecimal digit\<close>
  "is_hex_digit c = (in_range (CHR ''0'') (CHR ''9'') c \<or> in_range (CHR ''a'') (CHR ''f'') c)"

definition offline_hash :: "string \<Rightarrow> string" where
  \<comment> \<open>the hash of the fixed prefix followed by the username\<close>
  "offline_hash username = md5_hex (''OfflinePlayer:'' @ username)"





definition dec_char :: "char \<Rightarrow> bool" where
  "dec_char c = (\<exists>d<10. c = ''0123456789'' ! d)"

section \<open>Example inputs\<close>

definition posix_join :: "string list \<Rightarrow> string" where
  \<comment> \<open>\<open>path.join\<close> on segments that are already normal\<close>
  "posix_join parts = js_join ''/'' parts"

definition java_command :: "string \<Rightarrow> string" where
  "java_command p = [CHR 0x22] @ p @ [CHR 0x22] @ '' -version''"

definition banner_openjdk8 :: string where
  \<comment> \<open>what an OpenJDK 8 prints for \<open>-version\<close>\<close>
  "banner_openjdk8 =
     ''openjdk version '' @ [CHR 0x22] @ ''1.8.0_301'' @ [CHR 0x22] @ [CHR 0x0A]
     @ ''OpenJDK Runtime Environment (build 1.8.0_301-b09)'' @ [CHR 0x0A]
     @ ''OpenJDK 64-Bit Server VM (build 25.301-b09, mixed mode)''"

definition banner_first_line :: string where
  "banner_first_line = ''openjdk version '' @ [CHR 0x22] @ ''1.8.0_301'' @ [CHR 0x22]"

definition banner_java7 :: string where
  "banner_java7 = ''java version '' @ [CHR 0x22] @ ''1.7.0_80'' @ [CHR 0x22]"


definition example_config :: config where
  "example_config =
     \<lparr>cfg_javaPath = None, cfg_memory = 2048, cfg_gameDirectory = ''/games/mc''\<rparr>"

definition example_env :: env where
  "example_env =
     \<lparr>env_platform = Linux,
      env_exec = (\<lambda>cmd. if cmd = java_command ''/usr/bin/java''
                        then Some ([], banner_openjdk8) else None),
      env_commonJavaPaths = [''/usr/bin/java''],
      env_config = example_config,
      env_readJson = (\<lambda>p. None),
      env_pathJoin = posix_join,
      env_pathDelimiter = '':'',
      env_spawnPid = Some 4242,
      env_killThrows = False\<rparr>"

definition env_java7 :: env where
  "env_java7 =
     example_env\<lparr>env_exec := (\<lambda>cmd. if cmd = java_command ''/opt/jdk7/bin/java''
                                     then Some ([], banner_java7) else None),
                 env_commonJavaPaths := [''/opt/jdk7/bin/java'']\<rparr>"


definition java7_info :: javaInfo where
  "java7_info =
     \<lparr>java_path = ''/opt/jdk7/bin/java'', java_version = Num 7, java_vendor = [],
      java_bitness = ''64-bit'', java_type = ''JRE'', java_isValid = True\<rparr>"

definition java17_info :: javaInfo where
  "java17_info =
     \<lparr>java_path = ''/usr/bin/java'', java_version = Num 17, java_vendor = ''OpenJDK'',
      java_bitness = ''64-bit'', java_type = ''JDK'', java_isValid = True\<rparr>"

definition new_launcher :: launcher where
  \<comment> \<open>the fields as the constructor sets them\<close>
  "new_launcher =
     \<lparr>gameProcess = None, isRunning = False, gameOutput = [], javaVersions = [],
      javaCache = [], currentVersionInfo = None, effects = []\<rparr>"

definition running_launcher :: launcher where
  "running_launcher =
     new_launcher
       \<lparr>gameProcess := Some \<lparr>child_pid = Some 4242\<rparr>, isRunning := True,
        gameOutput := [\<lparr>out_type = Stdout, out_data = ''Loading'', out_timestamp = 1\<rparr>,
                       \<lparr>out_type = Stderr, out_data = ''warn'', out_timestamp = 2\<rparr>,
                       \<lparr>out_type = Stdout, out_data = ''Done'', out_timestamp = 3\<rparr>]\<rparr>"

definition stopped_launcher :: launcher where
  \<comment> \<open>after a stop, before the child's \<open>close\<close> event\<close>
  "stopped_launcher = running_launcher\<lparr>isRunning := False\<rparr>"

definition steve :: account where
  "steve =
     \<lparr>acc_username = ''Steve'', acc_uuid = None, acc_type = Some ''offline'',
      acc_accessToken = None\<rparr>"

definition example_request :: launchConfig where
  "example_request =
     \<lparr>lc_account = Some steve, lc_version = \<lparr>ref_id = ''1.20.1''\<rparr>, lc_javaPath = None,
      lc_memory = Some 2048, lc_jvmArgs = None, lc_gameArgs = None\<rparr>"

definition example_manifest :: versionInfo where
  "example_manifest =
     \<lparr>vi_id = ''1.20.1'', vi_assets = Some ''5'',
      vi_libraries =
        Some [\<lparr>lib_downloads = Some \<lparr>dl_artifact = Some \<lparr>art_path = ''com/a/a.jar''\<rparr>\<rparr>\<rparr>,
              \<lparr>lib_downloads = None\<rparr>,
              \<lparr>lib_downloads = Some \<lparr>dl_artifact = None\<rparr>\<rparr>,
              \<lparr>lib_downloads = Some \<lparr>dl_artifact = Some \<lparr>art_path = ''org/c/c.jar''\<rparr>\<rparr>\<rparr>]\<rparr>"

definition oom_line :: string where
  \<comment> \<open>a stderr record that matches the first and the last pattern\<close>
  "oom_line = ''java.lang.OutOfMemoryError: Java heap space (Invalid access token)''"

section \<open>Decimal strings read back\<close>

lemma decimal_cases:
  "d < 10 \<Longrightarrow> d = 0 \<or> d = 1 \<or> d = 2 \<or> d = 3 \<or> d = 4 \<or> d = 5 \<or> d = 6 \<or> d = 7 \<or> d = 8
     \<or> d = (9::nat)"
  by arith

lemma digit_char_props:
  assumes "d < 10"
  shows "digit_val (''0123456789'' ! d) = Some d"
    and "\<not> is_space (''0123456789'' ! d)"
    and "''0123456789'' ! d \<noteq> CHR ''-''"
    and "''0123456789'' ! d \<noteq> CHR ''+''"
    and "toLowerCase [''0123456789'' ! d] \<noteq> ''x''"
  using decimal_cases [OF assms]
  by (auto simp: digit_val_def in_range_def is_space_def toLowerCase_def)

lemma dec_char_props:
  assumes "dec_char c"
  shows "is_digit_in 10 c" and "\<not> is_space c" and "c \<noteq> CHR ''-''" and "c \<noteq> CHR ''+''"
    and "toLowerCase [c] \<noteq> ''x''"
  using assms digit_char_props
  by (auto simp: dec_char_def is_digit_in_def)

lemma digits_value_snoc:
  "digits_value R (xs @ [c]) =
     (case digit_val c of None \<Rightarrow> digits_value R xs | Some v \<Rightarrow> digits_value R xs * R + v)"
  by (simp add: digits_value_def split: option.splits)

lemma show_digits_props:
  "n < 10 ^ Suc k \<Longrightarrow>
     show_digits (Suc k) n \<noteq> [] \<and> list_all dec_char (show_digits (Suc k) n)
     \<and> digits_value 10 (show_digits (Suc k) n) = n"
proof (induction k arbitrary: n)
  case 0
  then have small: "n < 10" by simp
  show ?case
    using small digit_char_props(1) [OF small]
    by (auto simp: dec_char_def digits_value_def)
next
  case (Suc k)
  show ?case
  proof (cases "n < 10")
    case True
    then show ?thesis
      using digit_char_props(1) [OF True]
      by (auto simp: dec_char_def digits_value_def)
  next
    case False
    have m: "n mod 10 < 10" by simp
    from Suc.prems have "n div 10 < 10 ^ Suc k"
      by (simp add: less_mult_imp_div_less mult.commute)
    note ih = Suc.IH [OF this]
    have eq: "show_digits (Suc (Suc k)) n
                = show_digits (Suc k) (n div 10) @ [''0123456789'' ! (n mod 10)]"
      using False by simp
    have dc: "dec_char (''0123456789'' ! (n mod 10))"
      unfolding dec_char_def using m by blast
    show ?thesis
      unfolding eq using ih dc digit_char_props(1) [OF m]
      by (simp add: digits_value_snoc del: show_digits.simps)
  qed
qed

lemma show_nat_props:
  "show_nat n \<noteq> [] \<and> list_all dec_char (show_nat n) \<and> digits_value 10 (show_nat n) = n"
proof -
  have "n < 2 ^ n" by (rule less_exp)
  also have "(2::nat) ^ n \<le> 10 ^ n" by (rule power_mono) simp_all
  also have "(10::nat) ^ n \<le> 10 ^ Suc n" by simp
  finally show ?thesis unfolding show_nat_def by (rule show_digits_props)
qed

lemma takeWhile_all: "\<forall>x\<in>set xs. P x \<Longrightarrow> takeWhile P xs = xs"
  by (simp add: takeWhile_eq_all_conv)

lemma parseInt_plain:
  assumes "dropWhile is_space s = s" and "\<not> startsWith s ''-''" and "\<not> startsWith s ''+''"
    and "\<not> has_radix_prefix (CHR ''x'') s" and "takeWhile (is_digit_in 10) s = s" and "s \<noteq> []"
  shows "parseInt s = Some (int (digits_value 10 s))"
  using assms by (simp add: parseInt_def Let_def takeWhile_all)

lemma parseInt_minus:
  assumes "\<not> has_radix_prefix (CHR ''x'') s" and "takeWhile (is_digit_in 10) s = s" and "s \<noteq> []"
  shows "parseInt (CHR ''-'' # s) = Some (- int (digits_value 10 s))"
  using assms by (simp add: parseInt_def Let_def startsWith_def is_space_def takeWhile_all)

lemma parseInt_decimal:
  assumes "ds \<noteq> []" and "list_all dec_char ds"
  shows "parseInt ds = Some (int (digits_value 10 ds))"
    and "parseInt (CHR ''-'' # ds) = Some (- int (digits_value 10 ds))"
proof -
  obtain c cs where ds: "ds = c # cs" using assms(1) by (cases ds) auto
  have c: "dec_char c" using assms(2) ds by simp
  have all: "takeWhile (is_digit_in 10) ds = ds"
    using assms(2) by (simp add: takeWhile_eq_all_conv list_all_iff dec_char_props(1))
  have nohex: "\<not> has_radix_prefix (CHR ''x'') ds"
  proof (cases cs)
    case Nil
    then show ?thesis by (simp add: has_radix_prefix_def ds)
  next
    case (Cons b bs)
    then have "dec_char b" using assms(2) ds by simp
    then show ?thesis
      using dec_char_props(5) [of b] by (simp add: has_radix_prefix_def ds Cons)
  qed
  have sp: "dropWhile is_space ds = ds"
    using dec_char_props(2) [OF c] by (simp add: ds)
  have sg: "\<not> startsWith ds ''-''" "\<not> startsWith ds ''+''"
    using dec_char_props(3,4) [OF c] by (simp_all add: ds startsWith_def)
  show "parseInt ds = Some (int (digits_value 10 ds))"
    by (rule parseInt_plain [OF sp sg nohex all assms(1)])
  show "parseInt (CHR ''-'' # ds) = Some (- int (digits_value 10 ds))"
    by (rule parseInt_minus [OF nohex all assms(1)])
qed

lemma parseInt_show_int: "parseInt (show_int i) = Some i"
  using parseInt_decimal [of "show_nat (nat i)"] parseInt_decimal [of "show_nat (nat (- i))"]
    show_nat_props [of "nat i"] show_nat_props [of "nat (- i)"]
  by (simp add: show_int_def)

lemma parseInt_or0_Num: "parseInt_or0 (Num n) = n"
  by (simp add: parseInt_or0_def parseInt_show_int)

lemma show_digits_pos:
  "0 < k \<Longrightarrow> show_digits k n =
     (if n < 10 then [''0123456789'' ! n]
      else show_digits (k - 1) (n div 10) @ [''0123456789'' ! (n mod 10)])"
  by (cases k) simp_all

section \<open>The digest is 32 hexadecimal digits\<close>

lemma length_le_bytes: "length (le_bytes k n) = k"
  by (simp add: le_bytes_def)

lemma hex_digit_is_hex: "n < 16 \<Longrightarrow> is_hex_digit (hex_digit n)"
proof -
  assume small: "n < 16"
  have "list_all is_hex_digit ''0123456789abcdef''"
    by (simp add: is_hex_digit_def in_range_def)
  then have "\<forall>i<length ''0123456789abcdef''. is_hex_digit (''0123456789abcdef'' ! i)"
    by (simp only: list_all_length)
  then show ?thesis
    using small by (simp add: hex_digit_def)
qed

lemma hex_byte_props: "length (hex_byte b) = 2 \<and> list_all is_hex_digit (hex_byte b)"
  by (simp add: hex_byte_def hex_digit_is_hex)

lemma concat_hex_props:
  "length (concat (map hex_byte bs)) = 2 * length bs
   \<and> list_all is_hex_digit (concat (map hex_byte bs))"
  by (induction bs) (simp_all add: hex_byte_props)

lemma md5_hex_props: "length (md5_hex s) = 32 \<and> list_all is_hex_digit (md5_hex s)"
  by (simp add: md5_hex_def concat_hex_props length_le_bytes split: prod.splits)

lemma hex_not_terminator: "is_hex_digit c \<Longrightarrow> \<not> line_terminator c"
  by (auto simp: is_hex_digit_def line_terminator_def in_range_def)

lemma uuid_replace_32:
  "length h = 32 \<Longrightarrow> list_all (\<lambda>x. \<not> line_terminator x) h \<Longrightarrow> uuid_replace h = dashed h"
  by (cases h) simp_all

lemma replicate_pos: "0 < n \<Longrightarrow> replicate n x = x # replicate (n - 1) x"
  by (cases n) simp_all

lemma md5_hex_steve:
  "md5_hex ''OfflinePlayer:Steve'' = ''5627dd98e6bebc21f8a8e92344183641''"
  by (simp add: md5_hex_def md5_digest_def md5_block_def md5_step_def md5_words_def md5_pad_def
        le_bytes_def le_word_def md5_S_def md5_K_def rotate_left_def Let_def hex_byte_def
        hex_digit_def upt_rec replicate_pos)

section \<open>Loops as list functions\<close>

lemma first_error_find:
  "first_error tbl output =
     (case find (\<lambda>(p, m). regex_test p output) tbl of
        None \<Rightarrow> []
      | Some (p, m) \<Rightarrow> [GameErrorDetected output m])"
  by (induction tbl) (auto split: prod.splits)


text \<open>
  \<open>spawnGameProcess\<close> takes the manifest from \<open>this.currentVersionInfo\<close>, a field that
  no method of the class assigns: while it is undefined, spawning with a non-empty list of
  JVM arguments throws before anything is substituted or spawned.
\<close>

lemma spawnGameProcess_without_manifest:
  "currentVersionInfo st = None \<Longrightarrow> jvmArgs \<noteq> [] \<Longrightarrow>
     spawnGameProcess e st javaPath jvmArgs gameArgs = (st, Inl TypeError)"
  by (simp add: spawnGameProcess_def)

section \<open>Every probe result carries a version\<close>









section \<open>The claims\<close>

text \<open>
  Claim C1.  While a session is running, \<open>launchGame\<close> fails at once with the
  ``already running'' error: nothing is validated, no process is spawned, no event is
  emitted, and the launcher (\<open>isRunning\<close>, \<open>gameProcess\<close>, \<open>gameOutput\<close> and every other
  field, the list of effects included) is what it was.
\<close>

theorem launchGame_already_running:
  "isRunning st \<Longrightarrow> launchGame e st lc = (st, Inl GameAlreadyRunning)"
  by (simp add: launchGame_def)

theorem launchGame_already_running_witness:
  "isRunning running_launcher
   \<and> launchGame example_env running_launcher example_request
       = (running_launcher, Inl GameAlreadyRunning)"
  using launchGame_already_running [of running_launcher example_env example_request]
  by (simp add: running_launcher_def)

text \<open>
  Claim C2.  \<open>generateOfflineUUID\<close> depends on the username alone (it reads neither the
  launcher nor its environment): it is the MD5 digest of \<open>OfflinePlayer:\<close> followed by the
  username, 32 lower-case hexadecimal digits, cut into groups of 8, 4, 4, 4 and 12 digits
  that are joined by dashes, 36 characters in all.
\<close>

theorem generateOfflineUUID_canonical:
  "generateOfflineUUID username =
     js_join ''-''
       [take 8 (offline_hash username), take 4 (drop 8 (offline_hash username)),
        take 4 (drop 12 (offline_hash username)), take 4 (drop 16 (offline_hash username)),
        drop 20 (offline_hash username)]
   \<and> length (offline_hash username) = 32
   \<and> list_all is_hex_digit (offline_hash username)
   \<and> length (generateOfflineUUID username) = 36"
proof -
  let ?h = "md5_hex (''OfflinePlayer:'' @ username)"
  have len: "length ?h = 32" and hex: "list_all is_hex_digit ?h"
    using md5_hex_props by blast+
  have "list_all (\<lambda>x. \<not> line_terminator x) ?h"
    using hex by (simp add: list_all_iff hex_not_terminator)
  then have "uuid_replace ?h = dashed ?h"
    by (rule uuid_replace_32 [OF len])
  then show ?thesis
    using len hex by (simp add: generateOfflineUUID_def offline_hash_def dashed_def)
qed

theorem generateOfflineUUID_steve:
  "generateOfflineUUID ''Steve'' = ''5627dd98-e6be-bc21-f8a8-e92344183641''"
  using generateOfflineUUID_canonical [of "''Steve''"] md5_hex_steve
  by (simp add: offline_hash_def)

text \<open>
  Claim C3.  A banner with one line, the quoted version \<open>1.8.0_301\<close>, parses to version 8,
  vendor OpenJDK and kind JDK.  The banner an OpenJDK 8 really prints has three lines, and
  the loop over the lines does not stop at the first match: the last line matches the
  \<open>(build ...)\<close> pattern and replaces 8 by the leading integer of the VM's build,
  \<open>25.301-b09\<close>.  The banner contains the quoted version, \<open>OpenJDK\<close> and \<open>jdk\<close>, and parses
  to version 25.
\<close>

theorem parseJavaVersion_openjdk8_banner:
  "parseJavaVersion banner_openjdk8 ''/usr/bin/java'' =
     Some \<lparr>java_path = ''/usr/bin/java'', java_version = Num 25, java_vendor = ''OpenJDK'',
           java_bitness = ''64-bit'', java_type = ''JDK'', java_isValid = True\<rparr>"
  by code_simp

lemma parseJavaVersion_first_line:
  "parseJavaVersion banner_first_line ''/usr/bin/java'' =
     Some \<lparr>java_path = ''/usr/bin/java'', java_version = Num 8, java_vendor = ''OpenJDK'',
           java_bitness = ''64-bit'', java_type = ''JDK'', java_isValid = True\<rparr>"
  by code_simp

text \<open>
  Claim C4, as first stated, asks for one fraction on every path that builds the JVM
  arguments.  For 2048 megabytes \<open>HCLJavaLauncher.prepareLaunchArguments\<close> gives a minimum
  heap of 1024 and \<open>HCLGameManager.generateJVMArgs\<close> one of 512.
\<close>

theorem heap_flags_counterexample:
  "fst (prepareLaunchArguments example_env steve example_manifest 2048 java17_info) ! 1
     = ''-Xms1024M''
   \<and> generateJVMArgs 2048 ''/games/mc'' steve ! 1 = ''-Xms512M''"
  by (simp add: prepareLaunchArguments_def generateJVMArgs_def Let_def show_int_def
        show_nat_def show_digits_pos)

text \<open>
  Claim C4, amended.  On every path the first argument is the maximum heap, the requested
  number of megabytes, and the second is the minimum heap: half of it, rounded down, in
  \<open>HCLJavaLauncher.prepareLaunchArguments\<close>, and a quarter of it, rounded down, in
  \<open>HCLGameManager.generateJVMArgs\<close> and in \<open>HCLJavaLauncher.optimizeJVMArgs\<close>.
\<close>

theorem heap_flags:
  "take 2 (fst (prepareLaunchArguments e a v M j))
     = [''-Xmx'' @ show_int M @ ''M'', ''-Xms'' @ show_int (M div 2) @ ''M'']
   \<and> take 2 (generateJVMArgs M d a)
     = [''-Xmx'' @ show_int M @ ''M'', ''-Xms'' @ show_int (M div 4) @ ''M'']
   \<and> take 2 (optimizeJVMArgs jv M os)
     = [''-Xmx'' @ show_int M @ ''M'', ''-Xms'' @ show_int (M div 4) @ ''M'']"
  by (simp add: prepareLaunchArguments_def generateJVMArgs_def optimizeJVMArgs_def Let_def)

theorem heap_flags_witness:
  "take 2 (fst (prepareLaunchArguments example_env steve example_manifest 4096 java17_info))
     = [''-Xmx4096M'', ''-Xms2048M'']
   \<and> take 2 (generateJVMArgs 4096 ''/games/mc'' steve) = [''-Xmx4096M'', ''-Xms1024M'']
   \<and> take 2 (optimizeJVMArgs (Num 17) 4096 ''linux'') = [''-Xmx4096M'', ''-Xms1024M'']"
  using heap_flags [of example_env steve example_manifest 4096 java17_info "''/games/mc''"
      "Num 17" "''linux''"]
  by (simp add: show_int_def show_nat_def show_digits_pos)



text \<open>
  Claim C6, as first stated, has validation return a failure value and never throw for a
  runtime that is too old.  \<open>validateJava\<close>, given the path of a runtime whose banner says
  \<open>1.7.0_80\<close>, throws.
\<close>

theorem validateJava_throws_counterexample:
  "snd (validateJava env_java7 new_launcher (Some ''/opt/jdk7/bin/java''))
     = Inl (JavaVersionTooLow (Num 7))"
  by code_simp

text \<open>
  Claim C6, amended.  For a runtime whose version is a number below 8,
  \<open>checkJavaCompatibility\<close> returns the failure object (\<open>compatible: false\<close> with a
  message, no warning) and does not throw; \<open>validateJava\<close>, given an explicit path whose
  probe yields such a runtime, rejects it by throwing the version-too-low error, and
  changes nothing but the probe's cache entry.
\<close>

theorem incompatible_runtime_rejected:
  "n < 8 \<Longrightarrow>
     checkJavaCompatibility (Num n)
       = \<lparr>compatible = False, has_message = True, has_warning = False\<rparr>
     \<and> (truthy p \<and> checkJavaVersion e st (or_default p []) = (st1, Some info)
          \<and> java_version info = Num n
        \<longrightarrow> validateJava e st p = (st1, Inl (JavaVersionTooLow (Num n))))"
  by (simp add: checkJavaCompatibility_def parseInt_or0_Num validateJava_def)

theorem incompatible_runtime_rejected_witness:
  "checkJavaCompatibility (Num 7)
     = \<lparr>compatible = False, has_message = True, has_warning = False\<rparr>
   \<and> validateJava env_java7 new_launcher (Some ''/opt/jdk7/bin/java'')
       = (new_launcher\<lparr>javaCache := [(''/opt/jdk7/bin/java'', java7_info)]\<rparr>,
          Inl (JavaVersionTooLow (Num 7)))"
proof -
  have probe:
    "checkJavaVersion env_java7 new_launcher (or_default (Some ''/opt/jdk7/bin/java'') [])
       = (new_launcher\<lparr>javaCache := [(''/opt/jdk7/bin/java'', java7_info)]\<rparr>, Some java7_info)"
    by code_simp
  have v: "java_version java7_info = Num 7" by (simp add: java7_info_def)
  have t: "truthy (Some ''/opt/jdk7/bin/java'')" by (simp add: truthy_def)
  show ?thesis
    using incompatible_runtime_rejected [of 7 "Some ''/opt/jdk7/bin/java''" env_java7
        new_launcher "new_launcher\<lparr>javaCache := [(''/opt/jdk7/bin/java'', java7_info)]\<rparr>"
        java7_info]
      probe v t
    by simp
qed

text \<open>
  Claim C7.  The table of patterns is in the order out of memory, missing main class,
  authentication failure, download failure, invalid access token.  For a stderr record the
  classifier emits the diagnostic of the first pattern of the table that matches and
  nothing else, so at most one event; the record itself is appended to the buffer and
  emitted as \<open>game-output\<close> unchanged, before the diagnostic.
\<close>

theorem classifier_first_match:
  "map snd errorPatterns
     = [OutOfMemory, MainClassMissing, AuthenticationFailed, DownloadFailed, InvalidAccessToken]
   \<and> first_error errorPatterns output
       = (case find (\<lambda>(p, m). regex_test p output) errorPatterns of
            None \<Rightarrow> []
          | Some (p, m) \<Rightarrow> [GameErrorDetected output m])
   \<and> length (first_error errorPatterns output) \<le> 1
   \<and> stderr_data st output now
       = st\<lparr>gameOutput := gameOutput st
                @ [\<lparr>out_type = Stderr, out_data = output, out_timestamp = now\<rparr>],
             effects := effects st
                @ Emit (GameOutput Stderr output) # map Emit (first_error errorPatterns output)\<rparr>"
proof -
  have 1: "map snd errorPatterns
     = [OutOfMemory, MainClassMissing, AuthenticationFailed, DownloadFailed, InvalidAccessToken]"
    by (simp add: errorPatterns_def)
  have 2: "length (first_error errorPatterns output) \<le> 1"
    by (simp add: first_error_find split: option.splits prod.splits)
  have 3: "stderr_data st output now
       = st\<lparr>gameOutput := gameOutput st
                @ [\<lparr>out_type = Stderr, out_data = output, out_timestamp = now\<rparr>],
             effects := effects st
                @ Emit (GameOutput Stderr output) # map Emit (first_error errorPatterns output)\<rparr>"
    by (simp add: stderr_data_def checkForErrors_def emit_def)
  show ?thesis using 1 2 3 first_error_find by blast
qed

theorem classifier_first_match_witness:
  "stderr_data new_launcher oom_line 5
     = new_launcher
         \<lparr>gameOutput := [\<lparr>out_type = Stderr, out_data = oom_line, out_timestamp = 5\<rparr>],
          effects := [Emit (GameOutput Stderr oom_line),
                      Emit (GameErrorDetected oom_line OutOfMemory)]\<rparr>"
proof -
  have f: "first_error errorPatterns oom_line = [GameErrorDetected oom_line OutOfMemory]"
    by code_simp
  show ?thesis
    using classifier_first_match [of oom_line new_launcher 5] f
    by (simp add: new_launcher_def)
qed

text \<open>
  Claim C8.  When there is no process handle, or \<open>isRunning\<close> is false, \<open>stopGame\<close>
  returns false and the launcher is what it was: no event, no signal, no change.
\<close>

theorem stopGame_not_running:
  "gameProcess st = None \<or> \<not> isRunning st \<Longrightarrow> stopGame e st = (st, False)"
  by (auto simp: stopGame_def split: option.splits)

theorem stopGame_not_running_witness:
  "gameProcess new_launcher = None
   \<and> stopGame example_env new_launcher = (new_launcher, False)
   \<and> gameProcess stopped_launcher = Some \<lparr>child_pid = Some 4242\<rparr>
   \<and> stopGame example_env stopped_launcher = (stopped_launcher, False)"
  using stopGame_not_running [of new_launcher example_env]
    stopGame_not_running [of stopped_launcher example_env]
  by (simp add: new_launcher_def stopped_launcher_def running_launcher_def)




text \<open>
  Claim C10.  For a limit of at least 1, \<open>getGameOutput\<close> returns the last
  \<open>min limit (length buffer)\<close> records of the buffer, in the buffer's order; for the
  limit 0 it returns the whole buffer, since \<open>slice(-0)\<close> is \<open>slice(0)\<close>.
\<close>

theorem getGameOutput_limit:
  "(1 \<le> n \<longrightarrow>
      getGameOutput st (Some n)
        = drop (length (gameOutput st) - min (nat n) (length (gameOutput st))) (gameOutput st)
      \<and> length (getGameOutput st (Some n)) = min (nat n) (length (gameOutput st)))
   \<and> getGameOutput st (Some 0) = gameOutput st"
  by (auto simp: getGameOutput_def slice_from_def min_def max_def
           intro: arg_cong [where f = "\<lambda>k. drop k (gameOutput st)"])

theorem getGameOutput_limit_witness:
  "getGameOutput running_launcher (Some 2)
     = [\<lparr>out_type = Stderr, out_data = ''warn'', out_timestamp = 2\<rparr>,
        \<lparr>out_type = Stdout, out_data = ''Done'', out_timestamp = 3\<rparr>]
   \<and> length (getGameOutput running_launcher (Some 2)) = 2
   \<and> getGameOutput running_launcher (Some 0) = gameOutput running_launcher"
  using getGameOutput_limit [of 2 running_launcher]
  by (simp add: running_launcher_def new_launcher_def)

end
